theory Spec2Isabelle
  imports Main
begin

section \<open>JavaScript values and strings\<close>

text \<open>
  The script \<^verbatim>\<open>js/error-handler.js\<close> works on untyped JavaScript values. The
  embedding keeps the distinctions the script itself makes: truthiness (\<^verbatim>\<open>!url\<close>,
  \<^verbatim>\<open>value && ...\<close>), \<^verbatim>\<open>typeof v === 'string'\<close>, \<^verbatim>\<open>resource instanceof Request\<close>, and
  the string a value contributes to \<^verbatim>\<open>args.join(' ')\<close>. Numbers are integers; an object (a
  function, an array, a plain object, a \<^verbatim>\<open>URL\<close>) is a reference together with the text its
  conversion to a string yields, or with nothing when it has no usable \<^verbatim>\<open>toString\<close>
  (\<^verbatim>\<open>Object.create(null)\<close>), and it has no \<^verbatim>\<open>toLowerCase\<close> method; a symbol carries its
  description and cannot be converted to a string. A string is a list of 8-bit characters,
  and the case mapping covers the ASCII letters.
\<close>

datatype jsval =
    JUndefined
  | JNull
  | JBool bool
  | JNum int
  | JStr string
  | JSymbol string
  | JObj nat "string option"
  | JRequest string

datatype js_error = Error string | TypeError

fun truthy :: "jsval \<Rightarrow> bool" where
  "truthy JUndefined = False"
| "truthy JNull = False"
| "truthy (JBool b) = b"
| "truthy (JNum n) = (n \<noteq> 0)"
| "truthy (JStr s) = (s \<noteq> [])"
| "truthy (JSymbol d) = True"
| "truthy (JObj r s) = True"
| "truthy (JRequest u) = True"

fun is_string :: "jsval \<Rightarrow> bool" where
  "is_string (JStr s) = True"
| "is_string v = False"

definition lower_char :: "char \<Rightarrow> char" where
  "lower_char c =
     (case map_of (zip ''ABCDEFGHIJKLMNOPQRSTUVWXYZ'' ''abcdefghijklmnopqrstuvwxyz'') c of
        Some l \<Rightarrow> l
      | None \<Rightarrow> c)"

definition toLowerCase :: "string \<Rightarrow> string" where
  "toLowerCase s = map lower_char s"

fun starts_with :: "string \<Rightarrow> string \<Rightarrow> bool" where
  "starts_with s [] = True"
| "starts_with [] (d # ds) = False"
| "starts_with (c # cs) (d # ds) = (c = d \<and> starts_with cs ds)"

text \<open>\<^verbatim>\<open>s.includes(d)\<close>: \<open>d\<close> occurs in \<open>s\<close> as a contiguous run of characters.\<close>

fun js_includes :: "string \<Rightarrow> string \<Rightarrow> bool" where
  "js_includes [] d = (d = [])"
| "js_includes (c # cs) d = (starts_with (c # cs) d \<or> js_includes cs d)"

text \<open>\<^verbatim>\<open>domain.replace(/\./g, '-')\<close>: every dot becomes a hyphen.\<close>

definition replace_dots :: "string \<Rightarrow> string" where
  "replace_dots d = map (\<lambda>c. if c = CHR ''.'' then CHR ''-'' else c) d"

section \<open>Tracking protection: the block list and the classifier\<close>

definition blockedDomains :: "string list" where
  "blockedDomains =
    [''googletagmanager.com'', ''google-analytics.com'', ''analytics.google.com'',
     ''analytics'', ''segment.com'', ''segment.io'', ''mixpanel.com'',
     ''facebook.net'', ''facebook.com'', ''twitter.com'', ''ads-twitter.com'',
     ''linkedin.com'', ''tiktok.com'', ''snap.com'', ''pinterest.com'',
     ''doubleclick.net'', ''adsystem.com'', ''adnxs.com'', ''advertising'',
     ''adroll.com'', ''criteo.com'', ''outbrain.com'',
     ''firstpromoter.com'', ''redditstatic.com'', ''hsforms.com'', ''hs-scripts.com'',
     ''hs-analytics'', ''hubspot.com'', ''marketo.com'', ''salesforce.com'',
     ''hotjar.com'', ''mouseflow.com'', ''clarity.ms'', ''luckyorange.com'',
     ''crazyegg.com'',
     ''tracking'', ''telemetry'', ''metrics'', ''pixel'', ''beacon'', ''collect'']"

text \<open>
  \<^verbatim>\<open>isDomainBlocked(url)\<close>: a falsy argument is not blocked; \<^verbatim>\<open>url.toLowerCase()\<close> on a
  truthy value that is not a string raises a \<^verbatim>\<open>TypeError\<close>; \<^verbatim>\<open>some\<close> is \<^const>\<open>list_ex\<close>.
\<close>

definition isDomainBlocked :: "jsval \<Rightarrow> js_error + bool" where
  "isDomainBlocked url =
     (if \<not> truthy url then Inr False
      else case url of
        JStr s \<Rightarrow>
          (let urlLower = toLowerCase s in
           Inr (list_ex (\<lambda>domain. js_includes urlLower domain \<or>
                                  js_includes urlLower (replace_dots domain))
                  blockedDomains))
      | _ \<Rightarrow> Inl TypeError)"

subsection \<open>The classifier in the words of the specification\<close>

text \<open>
  A string contains \<open>d\<close> as a case-insensitive substring when some run of
  \<open>length d\<close> consecutive characters of it equals \<open>d\<close> up to the case of letters.
\<close>

definition ci_equal :: "string \<Rightarrow> string \<Rightarrow> bool" where
  "ci_equal a b = (toLowerCase a = toLowerCase b)"

definition contains_ci :: "string \<Rightarrow> string \<Rightarrow> bool" where
  "contains_ci s d =
     list_ex (\<lambda>i. ci_equal (take (length d) (drop i s)) d) [0 ..< Suc (length s)]"

definition contains_blocked_entry :: "string \<Rightarrow> bool" where
  "contains_blocked_entry s =
     list_ex (\<lambda>d. contains_ci s d \<or> contains_ci s (replace_dots d)) blockedDomains"

section \<open>String conversion and \<^verbatim>\<open>join\<close>\<close>

fun digits :: "nat \<Rightarrow> string" where
  "digits n =
     (if n < 10 then [''0123456789'' ! n]
      else digits (n div 10) @ [''0123456789'' ! (n mod 10)])"

declare digits.simps [simp del]

text \<open>
  The conversion of a value to a string raises a \<^verbatim>\<open>TypeError\<close> on a symbol and on an
  object with no usable \<^verbatim>\<open>toString\<close>.
\<close>

fun ToString :: "jsval \<Rightarrow> js_error + string" where
  "ToString JUndefined = Inr ''undefined''"
| "ToString JNull = Inr ''null''"
| "ToString (JBool b) = Inr (if b then ''true'' else ''false'')"
| "ToString (JNum n) =
     Inr (if n < 0 then CHR ''-'' # digits (nat (- n)) else digits (nat n))"
| "ToString (JStr s) = Inr s"
| "ToString (JSymbol d) = Inl TypeError"
| "ToString (JObj r None) = Inl TypeError"
| "ToString (JObj r (Some s)) = Inr s"
| "ToString (JRequest u) = Inr ''[object Request]''"

text \<open>
  \<^verbatim>\<open>Array.prototype.join\<close> renders \<^verbatim>\<open>undefined\<close> and \<^verbatim>\<open>null\<close> as the empty string and
  converts every other element, from left to right; a conversion that raises ends it.
\<close>

definition join_element :: "jsval \<Rightarrow> js_error + string" where
  "join_element v = (if v = JUndefined \<or> v = JNull then Inr [] else ToString v)"

fun join :: "string \<Rightarrow> jsval list \<Rightarrow> js_error + string" where
  "join sep [] = Inr []"
| "join sep [v] = join_element v"
| "join sep (v # w # vs) =
     (case join_element v of
        Inl e \<Rightarrow> Inl e
      | Inr a \<Rightarrow>
          (case join sep (w # vs) of
             Inl e \<Rightarrow> Inl e
           | Inr b \<Rightarrow> Inr (a @ sep @ b)))"

section \<open>The protection configuration\<close>

record protection_config =
  enabled :: bool
  debugMode :: bool
  blockConsoleErrors :: bool
  blockTracking :: bool
  blockAds :: bool
  allowEssentialCookies :: bool

definition protectionConfig :: protection_config where
  "protectionConfig =
     \<lparr>enabled = True, debugMode = False, blockConsoleErrors = True,
      blockTracking = True, blockAds = True, allowEssentialCookies = True\<rparr>"

section \<open>The console manager\<close>

text \<open>
  \<^verbatim>\<open>shouldBlock(args)\<close>: the arguments joined by a blank and lower-cased are searched for
  seven fixed phrases. When \<^verbatim>\<open>args.join(' ')\<close> raises, so does \<^verbatim>\<open>shouldBlock\<close>.
\<close>

definition shouldBlock :: "jsval list \<Rightarrow> js_error + bool" where
  "shouldBlock args =
     (case join '' '' args of
        Inl e \<Rightarrow> Inl e
      | Inr joined \<Rightarrow>
          (let message = toLowerCase joined in
           Inr (js_includes message ''err_blocked_by_client'' \<or>
                js_includes message ''failed to load'' \<or>
                js_includes message ''gtm'' \<or>
                js_includes message ''analytics'' \<or>
                js_includes message ''tracking'' \<or>
                js_includes message ''pixel'' \<or>
                js_includes message ''error loading script'')))"

text \<open>
  The console has four sinks. What is installed under a sink is either a function of the
  browser, which writes a line (recorded here in an output trace with the sink it belongs
  to), or the arrow function of \<^verbatim>\<open>consoleManager.init\<close> around a retained original, or
  the empty function \<^verbatim>\<open>() => {}\<close>. A function of the browser prints every value and
  does not raise; the arrow function raises when \<^verbatim>\<open>shouldBlock\<close> does.
\<close>

datatype sink = SinkLog | SinkError | SinkWarn | SinkDebug

datatype console_fn = Native sink | Filtered console_fn | Noop

record console =
  log :: console_fn
  error :: console_fn
  warn :: console_fn
  debug :: console_fn

type_synonym console_output = "(sink \<times> jsval list) list"

fun call_console ::
  "console_fn \<Rightarrow> jsval list \<Rightarrow> console_output \<Rightarrow> js_error + console_output" where
  "call_console (Native s) args out = Inr (out @ [(s, args)])"
| "call_console (Filtered original) args out =
     (case shouldBlock args of
        Inl e \<Rightarrow> Inl e
      | Inr blocked \<Rightarrow> if \<not> blocked then call_console original args out else Inr out)"
| "call_console Noop args out = Inr out"

text \<open>
  \<^verbatim>\<open>consoleManager.init\<close>, with \<^verbatim>\<open>consoleManager.originalConsole\<close> as the record of the four
  functions read from the console when the object literal was built.
\<close>

definition consoleManager_init :: "protection_config \<Rightarrow> console \<Rightarrow> console \<Rightarrow> console" where
  "consoleManager_init cfg originalConsole c =
     (let c1 = (if blockConsoleErrors cfg
                then c\<lparr>error := Filtered (error originalConsole),
                       warn := Filtered (warn originalConsole)\<rparr>
                else c)
      in if debugMode cfg then c1\<lparr>debug := debug originalConsole\<rparr>
         else c1\<lparr>debug := Noop\<rparr>)"

text \<open>The script reads \<^verbatim>\<open>originalConsole\<close> from the console it then patches.\<close>

definition install_console :: "console \<Rightarrow> console" where
  "install_console c = consoleManager_init protectionConfig c c"

text \<open>The console of the browser before the script runs.\<close>

definition browser_console :: console where
  "browser_console =
     \<lparr>log = Native SinkLog, error = Native SinkError, warn = Native SinkWarn,
      debug = Native SinkDebug\<rparr>"

subsection \<open>The console filter in the words of the specification\<close>

definition noise_phrases :: "string list" where
  "noise_phrases =
     [''err_blocked_by_client'', ''failed to load'', ''gtm'', ''analytics'',
      ''tracking'', ''pixel'', ''error loading script'']"

definition occurs_in :: "string \<Rightarrow> string \<Rightarrow> bool" where
  "occurs_in p s = list_ex (\<lambda>i. take (length p) (drop i s) = p) [0 ..< Suc (length s)]"

definition contains_noise :: "string \<Rightarrow> bool" where
  "contains_noise joined = list_ex (\<lambda>p. occurs_in p (toLowerCase joined)) noise_phrases"

section \<open>Tracking stubs on the global object\<close>

text \<open>
  A property of \<^verbatim>\<open>window\<close> is a data property with its value and the two attributes
  that decide whether it can be redefined or assigned. The global object is the map from
  names to such properties; the prototype chain and accessor properties are not
  modelled.
\<close>

record property =
  pvalue :: jsval
  writable :: bool
  configurable :: bool

type_synonym global = "string \<rightharpoonup> property"

definition window_get :: "global \<Rightarrow> string \<Rightarrow> jsval" where
  "window_get g k = (case g k of None \<Rightarrow> JUndefined | Some p \<Rightarrow> pvalue p)"

text \<open>
  \<^verbatim>\<open>Object.defineProperty(window, key, {value, writable: false, configurable: false})\<close>.
  The definition is refused with a \<^verbatim>\<open>TypeError\<close> exactly when the property exists, is
  neither configurable nor writable, and holds another value.
\<close>

definition defineProperty :: "global \<Rightarrow> string \<Rightarrow> jsval \<Rightarrow> js_error + global" where
  "defineProperty g k v =
     (case g k of
        None \<Rightarrow> Inr (g(k \<mapsto> \<lparr>pvalue = v, writable = False, configurable = False\<rparr>))
      | Some p \<Rightarrow>
          if \<not> configurable p \<and> \<not> writable p \<and> pvalue p \<noteq> v then Inl TypeError
          else Inr (g(k \<mapsto> \<lparr>pvalue = v, writable = False, configurable = False\<rparr>)))"

text \<open>\<^verbatim>\<open>window[key] = value\<close> in strict code: writing a read-only property raises.\<close>

definition assign :: "global \<Rightarrow> string \<Rightarrow> jsval \<Rightarrow> js_error + global" where
  "assign g k v =
     (case g k of
        None \<Rightarrow> Inr (g(k \<mapsto> \<lparr>pvalue = v, writable = True, configurable = True\<rparr>))
      | Some p \<Rightarrow> if writable p then Inr (g(k \<mapsto> p\<lparr>pvalue := v\<rparr>)) else Inl TypeError)"

text \<open>
  \<^verbatim>\<open>trackingStubs\<close> in the order of \<^verbatim>\<open>Object.entries\<close>. Each function and object literal
  is an object of its own.
\<close>

definition trackingStubs :: "(string \<times> jsval) list" where
  "trackingStubs =
    [(''gtag'', JObj 0 (Some ''() => {}'')),
     (''ga'', JObj 1 (Some ''() => {}'')),
     (''google_tag_manager'', JObj 2 (Some ''[object Object]'')),
     (''GoogleAnalyticsObject'', JBool True),
     (''__ga__'', JObj 3 (Some ''() => {}'')),
     (''fbq'', JObj 4 (Some ''() => {}'')),
     (''fb'', JObj 5 (Some ''() => {}'')),
     (''fbevents'', JObj 6 (Some ''() => {}'')),
     (''twq'', JObj 7 (Some ''() => {}'')),
     (''ttq'', JObj 8 (Some ''() => {}'')),
     (''lintrk'', JObj 9 (Some ''() => {}'')),
     (''rdt'', JObj 10 (Some ''() => {}'')),
     (''pintrk'', JObj 11 (Some ''() => {}'')),
     (''snaptr'', JObj 12 (Some ''() => {}'')),
     (''hsq'', JObj 13 (Some ''() => {}'')),
     (''hbspt'', JObj 14 (Some ''[object Object]'')),
     (''analytics'', JObj 15 (Some ''() => {}'')),
     (''_satellite'', JObj 16 (Some ''[object Object]'')),
     (''dataLayer'', JObj 17 (Some [])),
     (''hj'', JObj 18 (Some ''() => {}'')),
     (''clarity'', JObj 19 (Some ''() => {}'')),
     (''trackEvent'', JObj 20 (Some ''() => {}'')),
     (''trackPageview'', JObj 21 (Some ''() => {}'')),
     (''trackCustom'', JObj 22 (Some ''() => {}''))]"

text \<open>The body of the \<^verbatim>\<open>forEach\<close> callback of \<^verbatim>\<open>setupStubs\<close>.\<close>

definition install_stub :: "global \<Rightarrow> string \<times> jsval \<Rightarrow> js_error + global" where
  "install_stub g kv =
     (if \<not> truthy (window_get g (fst kv)) then
        (case defineProperty g (fst kv) (snd kv) of
           Inr g' \<Rightarrow> Inr g'
         | Inl e \<Rightarrow> assign g (fst kv) (snd kv))
      else Inr g)"

text \<open>
  \<^verbatim>\<open>forEach\<close> stops at the first callback that raises. The result is the global object as
  it then is, with the error if there was one.
\<close>

fun forEach_stub :: "(string \<times> jsval) list \<Rightarrow> global \<Rightarrow> global \<times> js_error option" where
  "forEach_stub [] g = (g, None)"
| "forEach_stub (kv # rest) g =
     (case install_stub g kv of
        Inl e \<Rightarrow> (g, Some e)
      | Inr g' \<Rightarrow> forEach_stub rest g')"

definition setupStubs :: "global \<Rightarrow> global \<times> js_error option" where
  "setupStubs g = forEach_stub trackingStubs g"

section \<open>The network request interceptor\<close>

text \<open>
  The functions the script wraps (\<^verbatim>\<open>XMLHttpRequest.prototype.open\<close> and \<^verbatim>\<open>send\<close>,
  \<^verbatim>\<open>window.fetch\<close>) belong to the browser and are parameters here: an original takes
  \<^verbatim>\<open>this\<close>, the argument list and the state of its environment, and gives what it
  completes with (of an arbitrary type, so also its own failures) and the new state. Beside
  that state the model keeps the list of calls that reached an original, so that a call
  that never reaches it leaves the list as it was.
\<close>

type_synonym call = "jsval \<times> jsval list"

datatype 'a outcome = Raised js_error | RejectedPromise js_error | Delegated 'a

definition arg :: "jsval list \<Rightarrow> nat \<Rightarrow> jsval" where
  "arg args i = (if i < length args then args ! i else JUndefined)"

text \<open>\<^verbatim>\<open>original.apply(this, arguments)\<close>, returning what the original returns.\<close>

definition apply_original ::
  "(jsval \<Rightarrow> jsval list \<Rightarrow> 'w \<Rightarrow> 'a \<times> 'w) \<Rightarrow> jsval \<Rightarrow> jsval list \<Rightarrow>
   'w \<times> call list \<Rightarrow> 'a outcome \<times> ('w \<times> call list)" where
  "apply_original original this args st =
     (case original this args (fst st) of
        (r, w') \<Rightarrow> (Delegated r, (w', snd st @ [(this, args)])))"

text \<open>\<^verbatim>\<open>xhr.open = function(method, url) {...}\<close> on an object of the wrapped constructor.\<close>

definition xhr_open ::
  "(jsval \<Rightarrow> jsval list \<Rightarrow> 'w \<Rightarrow> 'a \<times> 'w) \<Rightarrow> jsval \<Rightarrow> jsval list \<Rightarrow>
   'w \<times> call list \<Rightarrow> 'a outcome \<times> ('w \<times> call list)" where
  "xhr_open originalOpen this args st =
     (case isDomainBlocked (arg args 1) of
        Inl e \<Rightarrow> (Raised e, st)
      | Inr blocked \<Rightarrow>
          if blocked then (Raised (Error ''Request blocked''), st)
          else apply_original originalOpen this args st)"

text \<open>\<^verbatim>\<open>xhr.send = function(data) {...}\<close>.\<close>

definition xhr_send ::
  "(jsval \<Rightarrow> jsval list \<Rightarrow> 'w \<Rightarrow> 'a \<times> 'w) \<Rightarrow> jsval \<Rightarrow> jsval list \<Rightarrow>
   'w \<times> call list \<Rightarrow> 'a outcome \<times> ('w \<times> call list)" where
  "xhr_send originalSend this args st =
     (let data = arg args 0 in
      if truthy data \<and> is_string data then
        (case isDomainBlocked data of
           Inl e \<Rightarrow> (Raised e, st)
         | Inr blocked \<Rightarrow>
             if blocked then (Raised (Error ''Request blocked''), st)
             else apply_original originalSend this args st)
      else apply_original originalSend this args st)"

text \<open>\<^verbatim>\<open>window.fetch = function(resource, init) {...}\<close>.\<close>

definition effective_url :: "jsval \<Rightarrow> jsval" where
  "effective_url resource = (case resource of JRequest u \<Rightarrow> JStr u | _ \<Rightarrow> resource)"

definition window_fetch ::
  "(jsval \<Rightarrow> jsval list \<Rightarrow> 'w \<Rightarrow> 'a \<times> 'w) \<Rightarrow> jsval \<Rightarrow> jsval list \<Rightarrow>
   'w \<times> call list \<Rightarrow> 'a outcome \<times> ('w \<times> call list)" where
  "window_fetch originalFetch this args st =
     (let url = effective_url (arg args 0) in
      case isDomainBlocked url of
        Inl e \<Rightarrow> (Raised e, st)
      | Inr blocked \<Rightarrow>
          if blocked then (RejectedPromise (Error ''Request blocked''), st)
          else apply_original originalFetch this args st)"

section \<open>The script injection blocker\<close>

text \<open>
  An element carries its tag, its attributes, its inline style, its markup and text, and
  whether \<^verbatim>\<open>document.createElement\<close> of the script has put its own \<^verbatim>\<open>setAttribute\<close> and
  \<^verbatim>\<open>src\<close> on it. On an element of an HTML document the browser's \<^verbatim>\<open>setAttribute\<close>
  lower-cases the name and stores the string of the value under it, raising when the value
  has no string; \<^verbatim>\<open>getAttribute\<close> lower-cases the name and reads the attribute back,
  \<^verbatim>\<open>null\<close> when there is none.
\<close>

record element =
  tag :: string
  attrs :: "string \<rightharpoonup> string"
  style :: "string \<rightharpoonup> string"
  innerHTML :: string
  textContent :: string
  guarded :: bool

definition originalCreateElement :: "string \<Rightarrow> element" where
  "originalCreateElement tagName =
     \<lparr>tag = tagName, attrs = Map.empty, style = Map.empty, innerHTML = [],
      textContent = [], guarded = False\<rparr>"

definition originalSetAttribute :: "element \<Rightarrow> string \<Rightarrow> jsval \<Rightarrow> js_error + element" where
  "originalSetAttribute el name v =
     (case ToString v of
        Inl e \<Rightarrow> Inl e
      | Inr text \<Rightarrow> Inr (el\<lparr>attrs := (attrs el)(toLowerCase name \<mapsto> text)\<rparr>))"

definition getAttribute :: "element \<Rightarrow> string \<Rightarrow> jsval" where
  "getAttribute el name =
     (case attrs el (toLowerCase name) of None \<Rightarrow> JNull | Some v \<Rightarrow> JStr v)"

text \<open>\<^verbatim>\<open>element.setAttribute = function(name, value) {...}\<close> of a script element.\<close>

definition guarded_setAttribute :: "element \<Rightarrow> string \<Rightarrow> jsval \<Rightarrow> js_error + element" where
  "guarded_setAttribute el name v =
     (if truthy v \<and> is_string v \<and> (name = ''src'' \<or> name = ''data-src'') then
        (case isDomainBlocked v of
           Inl e \<Rightarrow> Inl e
         | Inr blocked \<Rightarrow>
             if blocked then Inr el else originalSetAttribute el name v)
      else originalSetAttribute el name v)"

text \<open>A call \<^verbatim>\<open>el.setAttribute(name, value)\<close> runs whichever function the element has.\<close>

definition setAttribute :: "element \<Rightarrow> string \<Rightarrow> jsval \<Rightarrow> js_error + element" where
  "setAttribute el name v =
     (if guarded el then guarded_setAttribute el name v
      else originalSetAttribute el name v)"

text \<open>The accessor \<^verbatim>\<open>src\<close> defined on a script element: \<^verbatim>\<open>set(value)\<close> and \<^verbatim>\<open>get()\<close>.\<close>

definition src_set :: "element \<Rightarrow> jsval \<Rightarrow> js_error + element" where
  "src_set el v =
     (if \<not> truthy v then Inr el
      else case isDomainBlocked v of
        Inl e \<Rightarrow> Inl e
      | Inr blocked \<Rightarrow> if \<not> blocked then setAttribute el ''src'' v else Inr el)"

definition src_get :: "element \<Rightarrow> jsval" where
  "src_get el = getAttribute el ''src''"

text \<open>
  \<^verbatim>\<open>document.createElement = function(tagName) {...}\<close>: only an element whose tag name
  lower-cases to \<^verbatim>\<open>script\<close> gets the two overrides.
\<close>

definition createElement :: "string \<Rightarrow> element" where
  "createElement tagName =
     (let el = originalCreateElement tagName in
      if toLowerCase tagName = ''script'' then el\<lparr>guarded := True\<rparr> else el)"

section \<open>Consent management\<close>













section \<open>Properties\<close>

subsection \<open>Substring search\<close>

lemma starts_with_take: "starts_with s d \<longleftrightarrow> take (length d) s = d"
  by (induction s d rule: starts_with.induct) auto

lemma take_drop_Cons_ex:
  "(\<exists>i\<le>length (c # cs). take n (drop i (c # cs)) = d) \<longleftrightarrow>
   take n (c # cs) = d \<or> (\<exists>j\<le>length cs. take n (drop j cs) = d)"
  (is "?L \<longleftrightarrow> ?R")
proof
  assume ?L
  then obtain i where i: "i \<le> length (c # cs)" "take n (drop i (c # cs)) = d"
    by blast
  show ?R
  proof (cases i)
    case 0
    with i show ?thesis by simp
  next
    case (Suc j)
    with i show ?thesis by auto
  qed
next
  assume ?R
  then show ?L
  proof
    assume "take n (c # cs) = d"
    then have "take n (drop 0 (c # cs)) = d" by simp
    then show ?L by blast
  next
    assume "\<exists>j\<le>length cs. take n (drop j cs) = d"
    then obtain j where "j \<le> length cs" "take n (drop j cs) = d" by blast
    then have "Suc j \<le> length (c # cs)" "take n (drop (Suc j) (c # cs)) = d"
      by simp_all
    then show ?L by blast
  qed
qed

lemma js_includes_iff:
  "js_includes s d \<longleftrightarrow> (\<exists>i\<le>length s. take (length d) (drop i s) = d)"
proof (induction s)
  case Nil
  then show ?case by auto
next
  case (Cons c cs)
  then have "js_includes (c # cs) d \<longleftrightarrow>
      take (length d) (c # cs) = d \<or> (\<exists>j\<le>length cs. take (length d) (drop j cs) = d)"
    by (simp add: starts_with_take)
  then show ?case by (simp only: take_drop_Cons_ex)
qed

lemma list_ex_upt: "list_ex P [0 ..< Suc n] \<longleftrightarrow> (\<exists>i\<le>n. P i)"
proof -
  have "set [0 ..< Suc n] = {i. i \<le> n}" by auto
  then show ?thesis unfolding list_ex_iff by blast
qed

lemma js_includes_occurs_in: "js_includes s p = occurs_in p s"
  by (simp only: occurs_in_def js_includes_iff list_ex_upt)

subsection \<open>The domain classifier\<close>

lemma lower_includes:
  assumes "toLowerCase d = d"
  shows "js_includes (toLowerCase s) d \<longleftrightarrow> contains_ci s d"
proof -
  have "take (length d) (drop i (map lower_char s)) = d \<longleftrightarrow>
        map lower_char (take (length d) (drop i s)) = map lower_char d" for i
    using assms by (simp add: toLowerCase_def take_map drop_map)
  then show ?thesis
    unfolding contains_ci_def ci_equal_def list_ex_upt js_includes_iff
    by (simp add: toLowerCase_def)
qed

lemma blockedDomains_lower:
  "list_all (\<lambda>d. toLowerCase d = d \<and> toLowerCase (replace_dots d) = replace_dots d)
     blockedDomains"
  by code_simp

lemma empty_not_blocked: "\<not> contains_blocked_entry []"
  by code_simp

lemma isDomainBlocked_string: "isDomainBlocked (JStr s) = Inr (contains_blocked_entry s)"
proof (cases "s = []")
  case True
  then show ?thesis by (simp add: isDomainBlocked_def empty_not_blocked)
next
  case False
  have "list_ex (\<lambda>d. js_includes (toLowerCase s) d \<or> js_includes (toLowerCase s) (replace_dots d))
          blockedDomains = contains_blocked_entry s"
    unfolding contains_blocked_entry_def
  proof (rule list_ex_cong [OF refl])
    fix d assume "d \<in> set blockedDomains"
    with blockedDomains_lower
    have "toLowerCase d = d" "toLowerCase (replace_dots d) = replace_dots d"
      by (auto simp: list_all_iff)
    then show "(js_includes (toLowerCase s) d \<or> js_includes (toLowerCase s) (replace_dots d)) =
               (contains_ci s d \<or> contains_ci s (replace_dots d))"
      by (simp add: lower_includes)
  qed
  with False show ?thesis by (simp add: isDomainBlocked_def)
qed

text \<open>
  Claim C1. The classifier returns a boolean on every string and on \<^verbatim>\<open>null\<close>: \<^verbatim>\<open>true\<close> for
  a string that contains an entry of the block list, or the entry with its dots turned
  into hyphens, as a case-insensitive substring; \<^verbatim>\<open>false\<close> for a string that contains
  none; \<^verbatim>\<open>false\<close> for \<^verbatim>\<open>null\<close> and for the empty string.
\<close>

theorem isDomainBlocked_classifies:
  "(contains_blocked_entry s \<longrightarrow> isDomainBlocked (JStr s) = Inr True) \<and>
   (\<not> contains_blocked_entry s \<longrightarrow> isDomainBlocked (JStr s) = Inr False) \<and>
   isDomainBlocked JNull = Inr False \<and>
   isDomainBlocked (JStr []) = Inr False"
  by (simp add: isDomainBlocked_string empty_not_blocked) (simp add: isDomainBlocked_def)

theorem isDomainBlocked_classifies_witness:
  "contains_blocked_entry ''x.Segment-IO'' \<and>
   isDomainBlocked (JStr ''x.Segment-IO'') = Inr True \<and>
   \<not> contains_blocked_entry ''x.org'' \<and>
   isDomainBlocked (JStr ''x.org'') = Inr False"
proof -
  have a: "contains_blocked_entry ''x.Segment-IO''" by code_simp
  have b: "\<not> contains_blocked_entry ''x.org''" by code_simp
  show ?thesis
    using a b isDomainBlocked_classifies [of "''x.Segment-IO''"]
      isDomainBlocked_classifies [of "''x.org''"]
    by blast
qed

text \<open>The examples of the specification.\<close>

lemma isDomainBlocked_examples:
  "isDomainBlocked (JStr ''https://www.google-analytics.com/collect'') = Inr True"
  "isDomainBlocked (JStr ''https://example.com/app.js'') = Inr False"
  "isDomainBlocked (JStr ''https://googletagmanager.com/gtm.js'') = Inr True"
  "isDomainBlocked (JStr ''https://example.com/data.json'') = Inr False"
  by code_simp+

subsection \<open>The console filter\<close>

lemma shouldBlock_noise:
  "join '' '' args = Inr joined \<Longrightarrow> shouldBlock args = Inr (contains_noise joined)"
  by (simp add: shouldBlock_def contains_noise_def noise_phrases_def Let_def
      js_includes_occurs_in)

lemma shouldBlock_raises: "join '' '' args = Inl e \<Longrightarrow> shouldBlock args = Inl e"
  by (simp add: shouldBlock_def)

text \<open>
  Where the arguments can be joined, the wrapped \<^verbatim>\<open>console.error\<close> and
  \<^verbatim>\<open>console.warn\<close> drop the call when the joined, lower-cased text contains a noise
  phrase, and otherwise are the original sink on the same arguments.
\<close>

lemma console_filter:
  assumes "join '' '' args = Inr joined"
  shows "(contains_noise joined \<longrightarrow>
            call_console (error (install_console c)) args out = Inr out \<and>
            call_console (warn (install_console c)) args out = Inr out) \<and>
         (\<not> contains_noise joined \<longrightarrow>
            call_console (error (install_console c)) args out =
              call_console (error c) args out \<and>
            call_console (warn (install_console c)) args out =
              call_console (warn c) args out)"
  using shouldBlock_noise [OF assms]
  by (simp add: install_console_def consoleManager_init_def protectionConfig_def)

lemma console_filter_examples:
  "call_console (error (install_console browser_console))
     [JStr ''Failed to load'', JStr ''resource'', JNum 404] [] = Inr []"
  "call_console (warn (install_console browser_console)) [JStr ''Form saved'', JNum 2] [] =
     Inr [(SinkWarn, [JStr ''Form saved'', JNum 2])]"
proof -
  have a: "join '' '' [JStr ''Failed to load'', JStr ''resource'', JNum 404] =
             Inr ''Failed to load resource 404''"
    by code_simp
  have b: "contains_noise ''Failed to load resource 404''" by code_simp
  have c: "join '' '' [JStr ''Form saved'', JNum 2] = Inr ''Form saved 2''" by code_simp
  have d: "\<not> contains_noise ''Form saved 2''" by code_simp
  have e: "warn browser_console = Native SinkWarn" by (simp add: browser_console_def)
  show "call_console (error (install_console browser_console))
          [JStr ''Failed to load'', JStr ''resource'', JNum 404] [] = Inr []"
    using console_filter [OF a, of browser_console "[]"] b by simp
  show "call_console (warn (install_console browser_console)) [JStr ''Form saved'', JNum 2] [] =
          Inr [(SinkWarn, [JStr ''Form saved'', JNum 2])]"
    using console_filter [OF c, of browser_console "[]"] d e by simp
qed

text \<open>
  Claim C8 fails on the code at an argument list that \<^verbatim>\<open>args.join(' ')\<close> cannot
  convert. For \<^verbatim>\<open>console.error(Symbol('x'))\<close> the joined text does not exist, so it holds no
  noise phrase and the claim has the original sink called with the argument; the original
  sink does print it, but the wrapper raises a \<^verbatim>\<open>TypeError\<close> and forwards nothing. The same
  holds on \<^verbatim>\<open>console.warn\<close> and for an object with no usable \<^verbatim>\<open>toString\<close>.
\<close>

theorem console_error_symbol_raises:
  "call_console (error browser_console) [JSymbol ''x''] [] =
     Inr [(SinkError, [JSymbol ''x''])] \<and>
   call_console (error (install_console browser_console)) [JSymbol ''x''] [] = Inl TypeError \<and>
   call_console (warn (install_console browser_console)) [JStr ''saved'', JObj 5 None] [] =
     Inl TypeError"
  by (simp add: install_console_def consoleManager_init_def protectionConfig_def
      browser_console_def shouldBlock_def join_element_def)

text \<open>
  Claim C10. \<^verbatim>\<open>consoleManager.init\<close> leaves \<^verbatim>\<open>console.log\<close> as it was, whatever the
  configuration: after installation a call of \<^verbatim>\<open>console.log\<close> is the call of the original
  sink on the same arguments, for every argument list, so also for one whose joined text
  holds a noise phrase.
\<close>

theorem console_log_not_wrapped:
  "log (consoleManager_init cfg originalConsole c) = log c \<and>
   call_console (log (install_console c)) args out = call_console (log c) args out \<and>
   call_console (log (install_console browser_console)) args out =
     Inr (out @ [(SinkLog, args)])"
  by (simp add: install_console_def consoleManager_init_def browser_console_def Let_def)

theorem console_log_not_wrapped_witness:
  "shouldBlock [JStr ''Failed to load resource''] = Inr True \<and>
   call_console (error (install_console browser_console)) [JStr ''Failed to load resource''] []
     = Inr [] \<and>
   call_console (log (install_console browser_console)) [JStr ''Failed to load resource''] [] =
     Inr [(SinkLog, [JStr ''Failed to load resource''])]"
proof -
  have a: "shouldBlock [JStr ''Failed to load resource''] = Inr True" by code_simp
  have b: "error (install_console browser_console) = Filtered (Native SinkError)"
    by (simp add: install_console_def consoleManager_init_def protectionConfig_def
        browser_console_def)
  have c: "log browser_console = Native SinkLog"
    by (simp add: browser_console_def)
  show ?thesis
    using a b c console_log_not_wrapped [of protectionConfig browser_console browser_console
        "[JStr ''Failed to load resource'']" "[]"]
    by simp
qed

subsection \<open>The stub registry\<close>

lemma install_stub_other:
  "install_stub g kv = Inr g' \<Longrightarrow> k \<noteq> fst kv \<Longrightarrow> g' k = g k"
  by (auto simp: install_stub_def defineProperty_def assign_def
      split: if_splits option.splits sum.splits)

lemma install_stub_truthy:
  "install_stub g kv = Inr g' \<Longrightarrow> truthy (window_get g k) \<Longrightarrow> g' k = g k"
  by (cases "k = fst kv") (auto simp: install_stub_other install_stub_def)

lemma forEach_stub_other:
  "k \<notin> fst ` set kvs \<Longrightarrow> fst (forEach_stub kvs g) k = g k"
proof (induction kvs arbitrary: g)
  case Nil
  then show ?case by simp
next
  case (Cons kv rest)
  then show ?case
    by (auto split: sum.splits simp: install_stub_other)
qed

lemma forEach_stub_truthy:
  "truthy (window_get g k) \<Longrightarrow> fst (forEach_stub kvs g) k = g k"
proof (induction kvs arbitrary: g)
  case Nil
  then show ?case by simp
next
  case (Cons kv rest)
  show ?case
  proof (cases "install_stub g kv")
    case (Inl e)
    then show ?thesis by simp
  next
    case (Inr g')
    from Inr Cons.prems have same: "g' k = g k" by (rule install_stub_truthy)
    then have "truthy (window_get g' k)" using Cons.prems by (simp add: window_get_def)
    then have "fst (forEach_stub rest g') k = g' k" by (rule Cons.IH)
    with Inr same show ?thesis by simp
  qed
qed

text \<open>
  Claim C6, as amended. \<^verbatim>\<open>setupStubs\<close> tests \<^verbatim>\<open>!window[key]\<close>, so what it leaves alone is
  a global that holds a truthy value: for every name whose property holds a truthy value
  before the call, and for every name that is not a key of \<^verbatim>\<open>trackingStubs\<close> whatever it
  holds, the property after the call is the property before it (also when the call
  raises on a later key).
\<close>

theorem setupStubs_keeps_truthy_globals:
  "g k = Some p \<Longrightarrow> truthy (pvalue p) \<or> k \<notin> fst ` set trackingStubs \<Longrightarrow>
   fst (setupStubs g) k = Some p"
  unfolding setupStubs_def
  using forEach_stub_truthy [of g k trackingStubs] forEach_stub_other [of k trackingStubs g]
  by (auto simp: window_get_def)

theorem setupStubs_keeps_truthy_globals_witness:
  "fst (setupStubs [''ga'' \<mapsto> \<lparr>pvalue = JObj 99 (Some ''function ga() {}''), writable = True,
                                configurable = True\<rparr>]) ''ga'' =
   Some \<lparr>pvalue = JObj 99 (Some ''function ga() {}''), writable = True, configurable = True\<rparr>"
  using setupStubs_keeps_truthy_globals
    [of "[''ga'' \<mapsto> \<lparr>pvalue = JObj 99 (Some ''function ga() {}''), writable = True,
                        configurable = True\<rparr>]"
        "''ga''"
        "\<lparr>pvalue = JObj 99 (Some ''function ga() {}''), writable = True, configurable = True\<rparr>"]
  by simp

text \<open>
  Claim C6 as stated fails where the global exists and holds a falsy value: after
  \<^verbatim>\<open>window.ga = null\<close> the call completes and \<^verbatim>\<open>window.ga\<close> is the stub.
\<close>

theorem setupStubs_overwrites_falsy_global:
  "[''ga'' \<mapsto> \<lparr>pvalue = JNull, writable = True, configurable = True\<rparr>] ''ga'' =
     Some \<lparr>pvalue = JNull, writable = True, configurable = True\<rparr> \<and>
   window_get (fst (setupStubs [''ga'' \<mapsto> \<lparr>pvalue = JNull, writable = True,
                                              configurable = True\<rparr>])) ''ga'' =
     JObj 1 (Some ''() => {}'') \<and>
   snd (setupStubs [''ga'' \<mapsto> \<lparr>pvalue = JNull, writable = True, configurable = True\<rparr>]) = None"
  by (simp add: setupStubs_def trackingStubs_def install_stub_def window_get_def
      defineProperty_def assign_def)

lemma install_stub_truthy_after:
  "install_stub g kv = Inr g' \<Longrightarrow> truthy (snd kv) \<Longrightarrow> truthy (window_get g' (fst kv))"
  by (auto simp: install_stub_def defineProperty_def assign_def window_get_def
      split: if_splits option.splits sum.splits)

lemma install_stub_skip: "truthy (window_get g (fst kv)) \<Longrightarrow> install_stub g kv = Inr g"
  by (simp add: install_stub_def)

lemma forEach_stub_again:
  "list_all (\<lambda>kv. truthy (snd kv)) kvs \<Longrightarrow>
   forEach_stub kvs (fst (forEach_stub kvs g)) = forEach_stub kvs g"
proof (induction kvs arbitrary: g)
  case Nil
  then show ?case by simp
next
  case (Cons kv rest)
  show ?case
  proof (cases "install_stub g kv")
    case (Inl e)
    then show ?thesis by simp
  next
    case (Inr g')
    let ?g'' = "fst (forEach_stub rest g')"
    from Inr Cons.prems have "truthy (window_get g' (fst kv))"
      by (simp add: install_stub_truthy_after)
    then have "?g'' (fst kv) = g' (fst kv)" by (rule forEach_stub_truthy)
    with \<open>truthy (window_get g' (fst kv))\<close> have "truthy (window_get ?g'' (fst kv))"
      by (simp add: window_get_def)
    then have "install_stub ?g'' kv = Inr ?g''" by (rule install_stub_skip)
    moreover have "forEach_stub rest ?g'' = forEach_stub rest g'"
      using Cons.prems by (intro Cons.IH) simp
    ultimately show ?thesis using Inr by simp
  qed
qed

lemma trackingStubs_truthy: "list_all (\<lambda>kv. truthy (snd kv)) trackingStubs"
  by (simp add: trackingStubs_def)

lemma setupStubs_again: "setupStubs (fst (setupStubs g)) = setupStubs g"
  unfolding setupStubs_def by (rule forEach_stub_again [OF trackingStubs_truthy])

text \<open>
  Claim C7. A second call of \<^verbatim>\<open>setupStubs\<close>, made in the state the first call left,
  leaves the global object, and so every global of \<^verbatim>\<open>trackingStubs\<close>, as the first call
  left it; and when the first call returned without raising, so does the second.
\<close>

theorem setupStubs_idempotent:
  "fst (setupStubs (fst (setupStubs g))) = fst (setupStubs g) \<and>
   (snd (setupStubs g) = None \<longrightarrow> snd (setupStubs (fst (setupStubs g))) = None)"
  by (simp add: setupStubs_again)

text \<open>
  The first call can raise: when a key of \<^verbatim>\<open>trackingStubs\<close> exists as a read-only,
  non-configurable property with a falsy value, \<^verbatim>\<open>defineProperty\<close> is refused and the
  assignment of the \<^verbatim>\<open>catch\<close> branch raises in strict code.
\<close>

lemma setupStubs_raises_example:
  "snd (setupStubs [''gtag'' \<mapsto> \<lparr>pvalue = JNull, writable = False, configurable = False\<rparr>]) =
   Some TypeError"
  by (simp add: setupStubs_def trackingStubs_def install_stub_def window_get_def
      defineProperty_def assign_def)

lemma setupStubs_empty_ok: "snd (setupStubs Map.empty) = None"
  by (simp add: setupStubs_def trackingStubs_def install_stub_def window_get_def
      defineProperty_def assign_def)

theorem setupStubs_idempotent_witness:
  "snd (setupStubs Map.empty) = None \<and>
   snd (setupStubs (fst (setupStubs Map.empty))) = None \<and>
   fst (setupStubs (fst (setupStubs Map.empty))) = fst (setupStubs Map.empty)"
  using setupStubs_idempotent [of Map.empty] setupStubs_empty_ok by simp

subsection \<open>The request interceptor\<close>

lemma isDomainBlocked_string_cases:
  "isDomainBlocked (JStr u) = Inr True \<or> isDomainBlocked (JStr u) = Inr False"
  by (simp add: isDomainBlocked_string)

lemma isDomainBlocked_raises_TypeError: "isDomainBlocked v = Inl e \<Longrightarrow> e = TypeError"
  by (cases v) (auto simp: isDomainBlocked_def Let_def split: if_splits)

lemma effective_url_simps:
  "effective_url (JRequest u) = JStr u" "effective_url (JStr u) = JStr u"
  by (simp_all add: effective_url_def)

text \<open>
  For a call of the wrapped \<^verbatim>\<open>fetch\<close> whose resource is a \<^verbatim>\<open>Request\<close> with url \<open>u\<close> or
  the string \<open>u\<close> itself: if \<open>u\<close> is classified as blocked, the call returns a promise
  rejected with the error \<^verbatim>\<open>Request blocked\<close> and the state, with its list of calls of the
  original, is as before; otherwise the call is \<^verbatim>\<open>originalFetch.apply(this, arguments)\<close>
  on the unchanged arguments, with its result.
\<close>

lemma fetch_rejects_or_delegates:
  assumes "arg args 0 = JRequest u \<or> arg args 0 = JStr u"
  shows "(isDomainBlocked (JStr u) = Inr True \<longrightarrow>
            window_fetch originalFetch this args st =
              (RejectedPromise (Error ''Request blocked''), st)) \<and>
         (isDomainBlocked (JStr u) \<noteq> Inr True \<longrightarrow>
            window_fetch originalFetch this args st =
              apply_original originalFetch this args st)"
proof -
  from assms have url: "effective_url (arg args 0) = JStr u"
    by (auto simp: effective_url_simps)
  show ?thesis
    using isDomainBlocked_string_cases [of u]
    by (auto simp: window_fetch_def url)
qed

lemma fetch_rejects_or_delegates_examples:
  "window_fetch (\<lambda>this args w. (''response'', Suc w)) JUndefined
     [JStr ''https://googletagmanager.com/gtm.js''] (0, []) =
     (RejectedPromise (Error ''Request blocked''), (0, [])) \<and>
   window_fetch (\<lambda>this args w. (''response'', Suc w)) JUndefined
     [JRequest ''https://example.com/data.json'', JObj 7 (Some ''[object Object]'')] (0, []) =
     (Delegated ''response'',
      (Suc 0, [(JUndefined, [JRequest ''https://example.com/data.json'',
                             JObj 7 (Some ''[object Object]'')])]))"
proof -
  have a: "isDomainBlocked (JStr ''https://googletagmanager.com/gtm.js'') = Inr True"
    by code_simp
  have b: "isDomainBlocked (JStr ''https://example.com/data.json'') \<noteq> Inr True"
    by code_simp
  have c: "arg [JStr ''https://googletagmanager.com/gtm.js''] 0 =
             JRequest ''https://googletagmanager.com/gtm.js'' \<or>
           arg [JStr ''https://googletagmanager.com/gtm.js''] 0 =
             JStr ''https://googletagmanager.com/gtm.js''"
    by (simp add: arg_def)
  have d: "arg [JRequest ''https://example.com/data.json'', JObj 7 (Some ''[object Object]'')] 0 =
             JRequest ''https://example.com/data.json'' \<or>
           arg [JRequest ''https://example.com/data.json'', JObj 7 (Some ''[object Object]'')] 0 =
             JStr ''https://example.com/data.json''"
    by (simp add: arg_def)
  show ?thesis
    using a b
      fetch_rejects_or_delegates [OF c, where originalFetch = "\<lambda>this args w. (''response'', Suc w)"
        and this = JUndefined and st = "(0, [])"]
      fetch_rejects_or_delegates [OF d, where originalFetch = "\<lambda>this args w. (''response'', Suc w)"
        and this = JUndefined and st = "(0, [])"]
    by (simp add: apply_original_def)
qed

text \<open>
  \<^verbatim>\<open>open\<close> of a request object of the wrapped constructor raises the error
  \<^verbatim>\<open>Request blocked\<close> if and only if its url argument is classified as blocked, and then
  the original is not called; for a url classified as not blocked the call is
  \<^verbatim>\<open>originalOpen.apply(this, arguments)\<close> and the wrapper raises nothing of its own. Every
  string url is classified one way or the other.
\<close>

lemma xhr_open_raises_iff_blocked:
  "(fst (xhr_open originalOpen this args st) = Raised (Error ''Request blocked'') \<longleftrightarrow>
      isDomainBlocked (arg args 1) = Inr True) \<and>
   (isDomainBlocked (arg args 1) = Inr True \<longrightarrow>
      xhr_open originalOpen this args st = (Raised (Error ''Request blocked''), st)) \<and>
   (isDomainBlocked (arg args 1) = Inr False \<longrightarrow>
      xhr_open originalOpen this args st = apply_original originalOpen this args st \<and>
      (\<forall>e. fst (xhr_open originalOpen this args st) \<noteq> Raised e)) \<and>
   (\<forall>u. arg args 1 = JStr u \<longrightarrow>
      isDomainBlocked (arg args 1) = Inr True \<or> isDomainBlocked (arg args 1) = Inr False)"
  by (auto simp: xhr_open_def apply_original_def isDomainBlocked_string
      split: sum.splits prod.splits dest: isDomainBlocked_raises_TypeError)

lemma xhr_open_raises_iff_blocked_examples:
  "xhr_open (\<lambda>this args w. (JUndefined, Suc w)) (JObj 1 (Some ''[object XMLHttpRequest]''))
     [JStr ''GET'', JStr ''https://googletagmanager.com/gtm.js''] (0, []) =
     (Raised (Error ''Request blocked''), (0, [])) \<and>
   xhr_open (\<lambda>this args w. (JUndefined, Suc w)) (JObj 1 (Some ''[object XMLHttpRequest]''))
     [JStr ''GET'', JStr ''https://example.com/data.json''] (0, []) =
     (Delegated JUndefined,
      (Suc 0, [(JObj 1 (Some ''[object XMLHttpRequest]''),
                [JStr ''GET'', JStr ''https://example.com/data.json''])]))"
proof -
  have a: "isDomainBlocked (arg [JStr ''GET'', JStr ''https://googletagmanager.com/gtm.js''] 1)
             = Inr True"
    unfolding arg_def by code_simp
  have b: "isDomainBlocked (arg [JStr ''GET'', JStr ''https://example.com/data.json''] 1)
             = Inr False"
    unfolding arg_def by code_simp
  show ?thesis
    using a b
      xhr_open_raises_iff_blocked [of "\<lambda>this args w. (JUndefined, Suc w)"
        "JObj 1 (Some ''[object XMLHttpRequest]'')"
        "[JStr ''GET'', JStr ''https://googletagmanager.com/gtm.js'']" "(0, [])"]
      xhr_open_raises_iff_blocked [of "\<lambda>this args w. (JUndefined, Suc w)"
        "JObj 1 (Some ''[object XMLHttpRequest]'')"
        "[JStr ''GET'', JStr ''https://example.com/data.json'']" "(0, [])"]
    by (simp add: apply_original_def)
qed

text \<open>
  \<^verbatim>\<open>fetch\<close> and \<^verbatim>\<open>open\<close> classify their argument without the \<^verbatim>\<open>typeof\<close> test that
  \<^verbatim>\<open>send\<close> and \<^verbatim>\<open>setAttribute\<close> make, so a truthy argument that is neither a string nor a
  \<^verbatim>\<open>Request\<close> makes the wrapper raise a \<^verbatim>\<open>TypeError\<close> at \<^verbatim>\<open>url.toLowerCase()\<close>, before the
  original is reached.
\<close>

lemma unclassifiable_target_raises:
  assumes "truthy r" and "\<not> is_string r" and "\<forall>u. r \<noteq> JRequest u"
  shows "(arg args 0 = r \<longrightarrow>
            window_fetch originalFetch this args st = (Raised TypeError, st)) \<and>
         (arg args 1 = r \<longrightarrow>
            xhr_open originalOpen this args st = (Raised TypeError, st))"
proof -
  from assms have "isDomainBlocked r = Inl TypeError" "effective_url r = r"
    by (cases r; simp add: isDomainBlocked_def effective_url_def)+
  then show ?thesis by (simp add: window_fetch_def xhr_open_def)
qed

text \<open>
  Claim C2 fails on the code at \<^verbatim>\<open>fetch(new URL('https://example.com/data.json'))\<close>. The
  resource is a \<^verbatim>\<open>URL\<close> object, which the original \<^verbatim>\<open>fetch\<close> accepts; it is not
  classified as blocked, so the claim has the call delegated to the original with its
  arguments. The wrapper raises a \<^verbatim>\<open>TypeError\<close> instead and the original is never called.
\<close>

theorem window_fetch_url_object_raises:
  "window_fetch (\<lambda>this args w. (''response'', Suc w)) JUndefined
     [JObj 3 (Some ''https://example.com/data.json'')] (0, []) =
     (Raised TypeError, (0, [])) \<and>
   apply_original (\<lambda>this args w. (''response'', Suc w)) JUndefined
     [JObj 3 (Some ''https://example.com/data.json'')] (0, []) =
     (Delegated ''response'',
      (Suc 0, [(JUndefined, [JObj 3 (Some ''https://example.com/data.json'')])])) \<and>
   isDomainBlocked (effective_url (JObj 3 (Some ''https://example.com/data.json''))) \<noteq>
     Inr True"
  by (simp add: window_fetch_def effective_url_def isDomainBlocked_def apply_original_def
      arg_def)

text \<open>
  Claim C3 fails on the code at
  \<^verbatim>\<open>xhr.open('GET', new URL('https://example.com/data.json'))\<close>, by the same missing
  \<^verbatim>\<open>typeof\<close> test. The target is not classified as blocked and the original \<^verbatim>\<open>open\<close>
  accepts it, so the claim has the call delegated with nothing raised. The wrapper raises
  a \<^verbatim>\<open>TypeError\<close> and the original is never called.
\<close>

theorem xhr_open_url_object_raises:
  "xhr_open (\<lambda>this args w. (JUndefined, Suc w)) (JObj 1 (Some ''[object XMLHttpRequest]''))
     [JStr ''GET'', JObj 3 (Some ''https://example.com/data.json'')] (0, []) =
     (Raised TypeError, (0, [])) \<and>
   apply_original (\<lambda>this args w. (JUndefined, Suc w))
     (JObj 1 (Some ''[object XMLHttpRequest]''))
     [JStr ''GET'', JObj 3 (Some ''https://example.com/data.json'')] (0, []) =
     (Delegated JUndefined,
      (Suc 0, [(JObj 1 (Some ''[object XMLHttpRequest]''),
                [JStr ''GET'', JObj 3 (Some ''https://example.com/data.json'')])])) \<and>
   isDomainBlocked (JObj 3 (Some ''https://example.com/data.json'')) \<noteq> Inr True"
  by (simp add: xhr_open_def isDomainBlocked_def apply_original_def arg_def)

text \<open>
  Claim C4. \<^verbatim>\<open>send\<close> raises the error \<^verbatim>\<open>Request blocked\<close>, without calling the original,
  when the payload is a string classified as blocked; for every other payload (not a
  string, or a string not classified as blocked) the call is
  \<^verbatim>\<open>originalSend.apply(this, arguments)\<close>.
\<close>

theorem xhr_send_raises_on_blocked_string:
  "((\<exists>u. arg args 0 = JStr u \<and> isDomainBlocked (JStr u) = Inr True) \<longrightarrow>
      xhr_send originalSend this args st = (Raised (Error ''Request blocked''), st)) \<and>
   (\<not> (\<exists>u. arg args 0 = JStr u \<and> isDomainBlocked (JStr u) = Inr True) \<longrightarrow>
      xhr_send originalSend this args st = apply_original originalSend this args st)"
proof (cases "arg args 0")
  case (JStr u)
  show ?thesis
  proof (cases "u = []")
    case True
    with JStr show ?thesis
      by (simp add: xhr_send_def isDomainBlocked_string empty_not_blocked)
  next
    case False
    with JStr show ?thesis
      by (simp add: xhr_send_def isDomainBlocked_string)
  qed
qed (simp_all add: xhr_send_def)

theorem xhr_send_raises_on_blocked_string_witness:
  "xhr_send (\<lambda>this args w. (JUndefined, Suc w)) (JObj 1 (Some ''[object XMLHttpRequest]''))
     [JStr ''u=https://hotjar.com/x''] (0, []) =
     (Raised (Error ''Request blocked''), (0, [])) \<and>
   xhr_send (\<lambda>this args w. (JUndefined, Suc w)) (JObj 1 (Some ''[object XMLHttpRequest]''))
     [JObj 2 (Some ''[object FormData]'')] (0, []) =
     (Delegated JUndefined,
      (Suc 0, [(JObj 1 (Some ''[object XMLHttpRequest]''), [JObj 2 (Some ''[object FormData]'')])]))"
proof -
  have a: "\<exists>u. arg [JStr ''u=https://hotjar.com/x''] 0 = JStr u \<and>
               isDomainBlocked (JStr u) = Inr True"
  proof (intro exI conjI)
    show "arg [JStr ''u=https://hotjar.com/x''] 0 = JStr ''u=https://hotjar.com/x''"
      by (simp add: arg_def)
    show "isDomainBlocked (JStr ''u=https://hotjar.com/x'') = Inr True"
      by code_simp
  qed
  have b: "\<not> (\<exists>u. arg [JObj 2 (Some ''[object FormData]'')] 0 = JStr u \<and>
                  isDomainBlocked (JStr u) = Inr True)"
    by (simp add: arg_def)
  show ?thesis
    using a b
      xhr_send_raises_on_blocked_string [of "[JStr ''u=https://hotjar.com/x'']"
        "\<lambda>this args w. (JUndefined, Suc w)" "JObj 1 (Some ''[object XMLHttpRequest]'')" "(0, [])"]
      xhr_send_raises_on_blocked_string [of "[JObj 2 (Some ''[object FormData]'')]"
        "\<lambda>this args w. (JUndefined, Suc w)" "JObj 1 (Some ''[object XMLHttpRequest]'')" "(0, [])"]
    by (simp add: apply_original_def)
qed

subsection \<open>The element interceptor\<close>

lemma blocked_nonempty: "isDomainBlocked (JStr s) = Inr True \<Longrightarrow> s \<noteq> []"
  by (auto simp: isDomainBlocked_def)

lemma createElement_script:
  "toLowerCase tagName = ''script'' \<Longrightarrow>
   guarded (createElement tagName) \<and> attrs (createElement tagName) = Map.empty"
  by (simp add: createElement_def originalCreateElement_def)


lemma attribute_names:
  "toLowerCase ''SCRIPT'' = ''script''" "toLowerCase ''script'' = ''script''"
  "toLowerCase ''src'' = ''src''" "toLowerCase ''SRC'' = ''src''"
  by code_simp+

lemma originalSetAttribute_src:
  "originalSetAttribute el ''src'' (JStr s) = Inr (el\<lparr>attrs := (attrs el)(''src'' \<mapsto> s)\<rparr>)"
  by (simp add: originalSetAttribute_def attribute_names)

text \<open>
  What holds of an element with the overrides of the wrapped \<^verbatim>\<open>createElement\<close>, which
  every element created with a tag name that lower-cases to \<^verbatim>\<open>script\<close> is: assigning a
  blocked string to \<^verbatim>\<open>src\<close> leaves the element as it was and raises nothing; assigning a
  non-empty string that is not blocked sets the attribute \<^verbatim>\<open>src\<close> to that string;
  \<^verbatim>\<open>setAttribute\<close> under the very name \<^verbatim>\<open>src\<close> or \<^verbatim>\<open>data-src\<close> with a blocked string
  leaves the element as it was; every other call of \<^verbatim>\<open>setAttribute\<close> is the original one.
\<close>

lemma script_source_guard:
  assumes "guarded el"
  shows "(isDomainBlocked (JStr s) = Inr True \<longrightarrow> src_set el (JStr s) = Inr el) \<and>
         (s \<noteq> [] \<and> isDomainBlocked (JStr s) = Inr False \<longrightarrow>
            src_set el (JStr s) = Inr (el\<lparr>attrs := (attrs el)(''src'' \<mapsto> s)\<rparr>) \<and>
            src_get (el\<lparr>attrs := (attrs el)(''src'' \<mapsto> s)\<rparr>) = JStr s) \<and>
         ((name = ''src'' \<or> name = ''data-src'') \<and> isDomainBlocked (JStr s) = Inr True \<longrightarrow>
            setAttribute el name (JStr s) = Inr el) \<and>
         (\<not> ((name = ''src'' \<or> name = ''data-src'') \<and>
              (\<exists>u. v = JStr u \<and> isDomainBlocked (JStr u) = Inr True)) \<longrightarrow>
            setAttribute el name v = originalSetAttribute el name v) \<and>
         (toLowerCase tagName = ''script'' \<longrightarrow>
            guarded (createElement tagName) \<and> src_get (createElement tagName) = JNull)"
proof (intro conjI impI)
  assume "isDomainBlocked (JStr s) = Inr True"
  then show "src_set el (JStr s) = Inr el"
    by (auto simp: src_set_def dest: blocked_nonempty)
next
  assume a: "s \<noteq> [] \<and> isDomainBlocked (JStr s) = Inr False"
  with assms show "src_set el (JStr s) = Inr (el\<lparr>attrs := (attrs el)(''src'' \<mapsto> s)\<rparr>)"
    by (simp add: src_set_def setAttribute_def guarded_setAttribute_def
        originalSetAttribute_src)
  show "src_get (el\<lparr>attrs := (attrs el)(''src'' \<mapsto> s)\<rparr>) = JStr s"
    by (simp add: src_get_def getAttribute_def attribute_names)
next
  assume "(name = ''src'' \<or> name = ''data-src'') \<and> isDomainBlocked (JStr s) = Inr True"
  with assms show "setAttribute el name (JStr s) = Inr el"
    by (auto simp: setAttribute_def guarded_setAttribute_def dest: blocked_nonempty)
next
  assume n: "\<not> ((name = ''src'' \<or> name = ''data-src'') \<and>
              (\<exists>u. v = JStr u \<and> isDomainBlocked (JStr u) = Inr True))"
  show "setAttribute el name v = originalSetAttribute el name v"
  proof (cases v)
    case (JStr u)
    with n assms show ?thesis
      using isDomainBlocked_string [of u]
      by (auto simp: setAttribute_def guarded_setAttribute_def)
  qed (simp_all add: setAttribute_def guarded_setAttribute_def)
next
  assume "toLowerCase tagName = ''script''"
  then show "guarded (createElement tagName)" "src_get (createElement tagName) = JNull"
    by (simp_all add: createElement_script src_get_def getAttribute_def)
qed

text \<open>
  The setter of \<^verbatim>\<open>src\<close> tests \<^verbatim>\<open>value && ...\<close>: the empty string, which is classified as
  not blocked, is ignored, and the attribute stays unset.
\<close>

lemma script_source_empty_ignored:
  "isDomainBlocked (JStr []) = Inr False \<and>
   src_set (createElement ''script'') (JStr []) = Inr (createElement ''script'') \<and>
   src_get (createElement ''script'') = JNull"
  using createElement_script [OF attribute_names(2)]
  by (simp add: isDomainBlocked_def src_set_def src_get_def getAttribute_def)

text \<open>
  Claim C5 fails on the code at
  \<^verbatim>\<open>script.setAttribute('SRC', 'https://googletagmanager.com/gtm.js')\<close> on an element of
  \<^verbatim>\<open>document.createElement('script')\<close>. The wrapper compares the name with \<^verbatim>\<open>'src'\<close> as
  written, while the tag name two lines above is compared after \<^verbatim>\<open>toLowerCase()\<close>; the
  browser lower-cases the name, so the call sets the source-bearing attribute. The value
  is blocked and the claim has the call dropped; the code writes the attribute, and
  \<^verbatim>\<open>script.src\<close> then reads the blocked address.
\<close>

theorem setAttribute_uppercase_name_writes_src:
  "isDomainBlocked (JStr ''https://googletagmanager.com/gtm.js'') = Inr True \<and>
   guarded (createElement ''script'') \<and>
   src_get (createElement ''script'') = JNull \<and>
   setAttribute (createElement ''script'') ''SRC''
     (JStr ''https://googletagmanager.com/gtm.js'') =
     Inr ((createElement ''script'')
            \<lparr>attrs := [''src'' \<mapsto> ''https://googletagmanager.com/gtm.js'']\<rparr>) \<and>
   src_get ((createElement ''script'')
              \<lparr>attrs := [''src'' \<mapsto> ''https://googletagmanager.com/gtm.js'']\<rparr>) =
     JStr ''https://googletagmanager.com/gtm.js''"
proof -
  have blocked: "isDomainBlocked (JStr ''https://googletagmanager.com/gtm.js'') = Inr True"
    by code_simp
  have el: "guarded (createElement ''script'')" "attrs (createElement ''script'') = Map.empty"
    using createElement_script [OF attribute_names(2)] by simp_all
  have "setAttribute (createElement ''script'') ''SRC''
          (JStr ''https://googletagmanager.com/gtm.js'') =
        Inr ((createElement ''script'')
               \<lparr>attrs := [''src'' \<mapsto> ''https://googletagmanager.com/gtm.js'']\<rparr>)"
    using el
    by (simp add: setAttribute_def guarded_setAttribute_def originalSetAttribute_def
        attribute_names)
  with blocked el show ?thesis
    by (simp add: src_get_def getAttribute_def attribute_names)
qed

text \<open>
  The \<^verbatim>\<open>typeof\<close> test of the same wrapper lets a \<^verbatim>\<open>URL\<close> object through whatever its
  address, and the browser stores its string.
\<close>

lemma setAttribute_url_object_written:
  "setAttribute (createElement ''script'') ''src''
     (JObj 3 (Some ''https://googletagmanager.com/gtm.js'')) =
   Inr ((createElement ''script'')
          \<lparr>attrs := [''src'' \<mapsto> ''https://googletagmanager.com/gtm.js'']\<rparr>)"
  using createElement_script [OF attribute_names(2)]
  by (simp add: setAttribute_def guarded_setAttribute_def originalSetAttribute_def
      attribute_names)

subsection \<open>The consent flow\<close>











end
